theory Spec2Isabelle
  imports Main "HOL-Library.AList"
begin

section \<open>JavaScript values\<close>

text \<open>
  Response bodies, request payloads and tenant options are untyped (\<^verbatim>\<open>any\<close>) in the
  source, so they are modelled as JavaScript values. An object is the list of its own
  enumerable properties in enumeration order. Numbers carry an integer payload; no
  operation of the modelled code computes with them.
\<close>

datatype jsval =
    JUndefined
  | JNull
  | JBool bool
  | JNum int
  | JStr string
  | JArr "jsval list"
  | JObj "(string \<times> jsval) list"

text \<open>Reading a property \<^verbatim>\<open>o.k\<close> of an object: \<^verbatim>\<open>undefined\<close> when it is missing.\<close>

definition obj_get :: "(string \<times> jsval) list \<Rightarrow> string \<Rightarrow> jsval" where
  "obj_get kvs k = (case map_of kvs k of None \<Rightarrow> JUndefined | Some v \<Rightarrow> v)"

text \<open>Assigning a property \<^verbatim>\<open>o.k = v\<close>.\<close>

definition obj_set :: "(string \<times> jsval) list \<Rightarrow> string \<Rightarrow> jsval \<Rightarrow> (string \<times> jsval) list" where
  "obj_set kvs k v = AList.update k v kvs"

text \<open>The truthiness test of \<^verbatim>\<open>if (v)\<close>, \<^verbatim>\<open>!v\<close> and \<^verbatim>\<open>v || w\<close>.\<close>

fun truthy :: "jsval \<Rightarrow> bool" where
  "truthy JUndefined = False"
| "truthy JNull = False"
| "truthy (JBool b) = b"
| "truthy (JNum n) = (n \<noteq> 0)"
| "truthy (JStr s) = (s \<noteq> [])"
| "truthy (JArr xs) = True"
| "truthy (JObj kvs) = True"

section \<open>The messaging request handler\<close>

subsection \<open>Data model\<close>

text \<open>
  \<^verbatim>\<open>RequestResponse\<close> of \<^verbatim>\<open>utils/api-request\<close>, as far as the handler reads it:
  \<^verbatim>\<open>status\<close>, the result of \<^verbatim>\<open>isJson()\<close>, and in \<^verbatim>\<open>data\<close> the parsed body, which
  the \<^verbatim>\<open>data\<close> getter hands out only when \<^verbatim>\<open>isJson()\<close> holds (see \<open>read_data\<close>).
\<close>

record RequestResponse =
  status :: int
  data :: jsval
  isJson :: bool

text \<open>
  What a promise of this module is rejected with: a \<^verbatim>\<open>RequestResponseError\<close> wrapping
  the response, an error that already has the SDK's format (the classifier's output, or
  what the transport raises by itself), or the \<^verbatim>\<open>TypeError\<close> of the JavaScript runtime
  when a property of \<^verbatim>\<open>null\<close> or \<^verbatim>\<open>undefined\<close> is read.
\<close>

datatype 'n thrown =
    RequestResponseError RequestResponse
  | FirebaseError 'n
  | TypeError

text \<open>A settled promise: \<open>Inl\<close> is a rejection, \<open>Inr\<close> a resolution.\<close>

type_synonym ('n, 'a) promise = "'n thrown + 'a"

definition then_p :: "('n, 'a) promise \<Rightarrow> ('a \<Rightarrow> ('n, 'b) promise) \<Rightarrow> ('n, 'b) promise" where
  "then_p p f = (case p of Inl e \<Rightarrow> Inl e | Inr v \<Rightarrow> f v)"

definition catch_p :: "('n, 'a) promise \<Rightarrow> ('n thrown \<Rightarrow> ('n, 'a) promise) \<Rightarrow> ('n, 'a) promise" where
  "catch_p p g = (case p of Inl e \<Rightarrow> g e | Inr v \<Rightarrow> Inr v)"

record HttpRequestConfig =
  httpMethod :: string
  url :: string
  reqData :: jsval
  headers :: "(string \<times> string) list"
  timeout :: nat

record 'h Http2RequestConfig = HttpRequestConfig +
  http2SessionHandler :: 'h

record 'n SendResponse =
  success :: bool
  messageId :: "jsval option"
  error :: "'n option"

record 'n BatchResponse =
  responses :: "'n SendResponse list"
  successCount :: int
  failureCount :: int

text \<open>
  What the module imports and does not define: the error classifier of
  \<^verbatim>\<open>messaging-errors-internal\<close> (\<^verbatim>\<open>createFirebaseError\<close> applied to a
  \<^verbatim>\<open>RequestResponseError\<close>, given here the wrapped response, and \<^verbatim>\<open>getErrorCode\<close>),
  the error of \<^verbatim>\<open>utils/api-request\<close> with code \<^verbatim>\<open>unable-to-parse-response\<close> that the
  \<^verbatim>\<open>data\<close> getter of a response raises, \<^verbatim>\<open>getSdkVersion()\<close> and
  \<^verbatim>\<open>process.versions.node\<close>.
\<close>

record 'n module_imports =
  createFirebaseError :: "RequestResponse \<Rightarrow> 'n"
  getErrorCode :: "jsval \<Rightarrow> jsval"
  unableToParseResponse :: "RequestResponse \<Rightarrow> 'n"
  getSdkVersion :: string
  nodeVersion :: string

text \<open>
  The three clients of a handler instance, each a function from what it is sent to the
  settled promise it returns.
\<close>

record ('n, 'h, 's) FirebaseMessagingRequestHandler =
  httpClient :: "HttpRequestConfig \<Rightarrow> ('n, RequestResponse) promise"
  http2Client :: "'h Http2RequestConfig \<Rightarrow> ('n, RequestResponse) promise"
  batchClient :: "'s list \<Rightarrow> ('n, RequestResponse list) promise"

subsection \<open>Constants\<close>

definition FIREBASE_MESSAGING_TIMEOUT :: nat where
  "FIREBASE_MESSAGING_TIMEOUT = 15000"

definition FIREBASE_MESSAGING_HTTP_METHOD :: string where
  "FIREBASE_MESSAGING_HTTP_METHOD = ''POST''"

definition LEGACY_FIREBASE_MESSAGING_HEADERS :: "'n module_imports \<Rightarrow> (string \<times> string) list" where
  "LEGACY_FIREBASE_MESSAGING_HEADERS im =
     [(''X-Firebase-Client'', ''fire-admin-node/'' @ getSdkVersion im),
      (''X-Goog-Api-Client'',
         ''gl-node/'' @ nodeVersion im @ '' fire-admin/'' @ getSdkVersion im),
      (''access_token_auth'', ''true'')]"

subsection \<open>Building a SendResponse\<close>

text \<open>
  \<^verbatim>\<open>response.data.name\<close>: a \<^verbatim>\<open>TypeError\<close> on \<^verbatim>\<open>null\<close> and \<^verbatim>\<open>undefined\<close>, the property
  of an object, and \<^verbatim>\<open>undefined\<close> on the other values, none of which has a property
  of that name.
\<close>

fun read_name :: "jsval \<Rightarrow> ('n, jsval) promise" where
  "read_name JUndefined = Inl TypeError"
| "read_name JNull = Inl TypeError"
| "read_name (JObj kvs) = Inr (obj_get kvs ''name'')"
| "read_name v = Inr JUndefined"

text \<open>
  \<^verbatim>\<open>response.data\<close> is a getter of \<^verbatim>\<open>utils/api-request\<close>: it returns the parsed body
  when \<^verbatim>\<open>isJson()\<close> holds and otherwise throws the error with code
  \<^verbatim>\<open>unable-to-parse-response\<close>, which is not a \<^verbatim>\<open>RequestResponseError\<close>.
\<close>

definition read_data :: "'n module_imports \<Rightarrow> RequestResponse \<Rightarrow> ('n, jsval) promise" where
  "read_data im response =
     (if isJson response then Inr (data response)
      else Inl (FirebaseError (unableToParseResponse im response)))"

definition buildSendResponse ::
  "'n module_imports \<Rightarrow> RequestResponse \<Rightarrow> ('n, 'n SendResponse) promise" where
  "buildSendResponse im response =
     (let result = \<lparr>success = (status response = 200), messageId = None, error = None\<rparr>
      in if success result
         then then_p (read_data im response)
                (\<lambda>d. then_p (read_name d)
                   (\<lambda>v. Inr (result\<lparr>messageId := Some v\<rparr>)))
         else Inr (result\<lparr>error := Some (createFirebaseError im response)\<rparr>))"

definition buildSendResponseFromError :: "'n module_imports \<Rightarrow> RequestResponse \<Rightarrow> 'n SendResponse" where
  "buildSendResponseFromError im err =
     \<lparr>success = False, messageId = None, error = Some (createFirebaseError im err)\<rparr>"

subsection \<open>The four operations\<close>

definition invokeRequestHandler ::
  "'n module_imports \<Rightarrow> ('n, 'h, 's) FirebaseMessagingRequestHandler \<Rightarrow>
     string \<Rightarrow> string \<Rightarrow> jsval \<Rightarrow> ('n, jsval) promise" where
  "invokeRequestHandler im this host path requestData =
     (let request = \<lparr>httpMethod = FIREBASE_MESSAGING_HTTP_METHOD,
                      url = ''https://'' @ host @ path,
                      reqData = requestData,
                      headers = LEGACY_FIREBASE_MESSAGING_HEADERS im,
                      timeout = FIREBASE_MESSAGING_TIMEOUT\<rparr>
      in catch_p
           (then_p (httpClient this request)
              (\<lambda>response.
                 if \<not> isJson response then Inl (RequestResponseError response)
                 else then_p (read_data im response)
                        (\<lambda>d. let errorCode = getErrorCode im d
                             in if truthy errorCode then Inl (RequestResponseError response)
                                else read_data im response)))
           (\<lambda>err. case err of
                     RequestResponseError r \<Rightarrow> Inl (FirebaseError (createFirebaseError im r))
                   | _ \<Rightarrow> Inl err))"

definition invokeHttpRequestHandlerForSendResponse ::
  "'n module_imports \<Rightarrow> ('n, 'h, 's) FirebaseMessagingRequestHandler \<Rightarrow>
     string \<Rightarrow> string \<Rightarrow> jsval \<Rightarrow> ('n, 'n SendResponse) promise" where
  "invokeHttpRequestHandlerForSendResponse im this host path requestData =
     (let request = \<lparr>httpMethod = FIREBASE_MESSAGING_HTTP_METHOD,
                      url = ''https://'' @ host @ path,
                      reqData = requestData,
                      headers = LEGACY_FIREBASE_MESSAGING_HEADERS im,
                      timeout = FIREBASE_MESSAGING_TIMEOUT\<rparr>
      in catch_p
           (then_p (httpClient this request) (\<lambda>response. buildSendResponse im response))
           (\<lambda>err. case err of
                     RequestResponseError r \<Rightarrow> Inr (buildSendResponseFromError im r)
                   | _ \<Rightarrow> Inl err))"

definition invokeHttp2RequestHandlerForSendResponse ::
  "'n module_imports \<Rightarrow> ('n, 'h, 's) FirebaseMessagingRequestHandler \<Rightarrow>
     string \<Rightarrow> string \<Rightarrow> jsval \<Rightarrow> 'h \<Rightarrow> ('n, 'n SendResponse) promise" where
  "invokeHttp2RequestHandlerForSendResponse im this host path requestData sessionHandler =
     (let request = \<lparr>httpMethod = FIREBASE_MESSAGING_HTTP_METHOD,
                      url = ''https://'' @ host @ path,
                      reqData = requestData,
                      headers = LEGACY_FIREBASE_MESSAGING_HEADERS im,
                      timeout = FIREBASE_MESSAGING_TIMEOUT,
                      http2SessionHandler = sessionHandler\<rparr>
      in catch_p
           (then_p (http2Client this request) (\<lambda>response. buildSendResponse im response))
           (\<lambda>err. case err of
                     RequestResponseError r \<Rightarrow> Inr (buildSendResponseFromError im r)
                   | _ \<Rightarrow> Inl err))"

text \<open>
  \<^verbatim>\<open>responses.map(f)\<close> with a callback that may throw: the elements are visited in
  order and the first exception ends the call.
\<close>

fun map_p :: "('a \<Rightarrow> ('n, 'b) promise) \<Rightarrow> 'a list \<Rightarrow> ('n, 'b list) promise" where
  "map_p f [] = Inr []"
| "map_p f (x # xs) =
     (case f x of
        Inl e \<Rightarrow> Inl e
      | Inr y \<Rightarrow> (case map_p f xs of Inl e \<Rightarrow> Inl e | Inr ys \<Rightarrow> Inr (y # ys)))"

definition sendBatchRequest ::
  "'n module_imports \<Rightarrow> ('n, 'h, 's) FirebaseMessagingRequestHandler \<Rightarrow>
     's list \<Rightarrow> ('n, 'n BatchResponse) promise" where
  "sendBatchRequest im this requests =
     catch_p
       (then_p
          (then_p (batchClient this requests)
             (\<lambda>parts. map_p (\<lambda>part. buildSendResponse im part) parts))
          (\<lambda>rs. let sc = int (length (filter success rs))
                in Inr \<lparr>responses = rs,
                        successCount = sc,
                        failureCount = int (length rs) - sc\<rparr>))
       (\<lambda>err. case err of
                 RequestResponseError r \<Rightarrow> Inl (FirebaseError (createFirebaseError im r))
               | _ \<Rightarrow> Inl err)"

section \<open>Notions used in the statements\<close>

text \<open>A value on which reading a property throws.\<close>

definition nullish :: "jsval \<Rightarrow> bool" where
  "nullish v = (v = JUndefined \<or> v = JNull)"

text \<open>The \<^verbatim>\<open>name\<close> field of a response body that is not \<^verbatim>\<open>null\<close> or \<^verbatim>\<open>undefined\<close>.\<close>

fun body_name :: "jsval \<Rightarrow> jsval" where
  "body_name (JObj kvs) = obj_get kvs ''name''"
| "body_name v = JUndefined"

text \<open>An optional property is defined when it is set to a value other than \<^verbatim>\<open>undefined\<close>.\<close>

definition defined_field :: "jsval option \<Rightarrow> bool" where
  "defined_field p = (case p of None \<Rightarrow> False | Some v \<Rightarrow> v \<noteq> JUndefined)"

text \<open>The request descriptors that the single-send operations hand to their client.\<close>

definition httpRequest :: "'n module_imports \<Rightarrow> string \<Rightarrow> string \<Rightarrow> jsval \<Rightarrow> HttpRequestConfig" where
  "httpRequest im host path requestData =
     \<lparr>httpMethod = ''POST'', url = ''https://'' @ host @ path, reqData = requestData,
      headers = LEGACY_FIREBASE_MESSAGING_HEADERS im, timeout = 15000\<rparr>"

definition http2Request ::
  "'n module_imports \<Rightarrow> string \<Rightarrow> string \<Rightarrow> jsval \<Rightarrow> 'h \<Rightarrow> 'h Http2RequestConfig" where
  "http2Request im host path requestData sessionHandler =
     \<lparr>httpMethod = ''POST'', url = ''https://'' @ host @ path, reqData = requestData,
      headers = LEGACY_FIREBASE_MESSAGING_HEADERS im, timeout = 15000,
      http2SessionHandler = sessionHandler\<rparr>"

text \<open>
  The contract of a single send, as a function of the outcome of the client: a response
  is turned into a \<^verbatim>\<open>SendResponse\<close> by \<open>buildSendResponse\<close>, a thrown
  \<^verbatim>\<open>RequestResponseError\<close> into a failure by \<open>buildSendResponseFromError\<close>, and any
  other thrown error is thrown again.
\<close>

definition settle_send ::
  "'n module_imports \<Rightarrow> ('n, RequestResponse) promise \<Rightarrow> ('n, 'n SendResponse) promise" where
  "settle_send im outcome =
     (case outcome of
        Inl (RequestResponseError r) \<Rightarrow> Inr (buildSendResponseFromError im r)
      | Inl e \<Rightarrow> Inl e
      | Inr r \<Rightarrow> buildSendResponse im r)"

text \<open>
  A \<^verbatim>\<open>SendResponse\<close> has the \<^verbatim>\<open>messageId\<close> property exactly when it is a success and
  the \<^verbatim>\<open>error\<close> property exactly when it is a failure, and a failure has no defined
  \<^verbatim>\<open>messageId\<close>.
\<close>

definition exactly_one_present :: "'n SendResponse \<Rightarrow> bool" where
  "exactly_one_present sr =
     ((messageId sr \<noteq> None) = success sr \<and> (error sr \<noteq> None) = (\<not> success sr) \<and>
      (success sr \<or> \<not> defined_field (messageId sr)))"

section \<open>The tenant configuration object\<close>

subsection \<open>Errors and imported functions\<close>

datatype AuthClientErrorCode = INVALID_ARGUMENT | INTERNAL_ERROR | OTHER_CODE string

datatype FirebaseAuthError = FirebaseAuthError (code: AuthClientErrorCode) (message: string)

text \<open>A statement that may throw, followed by the rest of the block.\<close>

definition and_then :: "'e + 'a \<Rightarrow> ('a \<Rightarrow> 'e + 'b) \<Rightarrow> 'e + 'b" where
  "and_then r f = (case r of Inl e \<Rightarrow> Inl e | Inr v \<Rightarrow> f v)"

text \<open>
  What \<^verbatim>\<open>tenant.ts\<close> imports and does not define: the validators and builders of
  \<^verbatim>\<open>auth-config\<close>, the predicates of \<^verbatim>\<open>utils/validator\<close> and \<^verbatim>\<open>deepCopy\<close>. Each
  builder, validator and constructor either returns or throws.
\<close>

record auth_config =
  EmailSignInConfig_buildServerRequest :: "jsval \<Rightarrow> FirebaseAuthError + (string \<times> jsval) list"
  MultiFactorAuthConfig_buildServerRequest :: "jsval \<Rightarrow> FirebaseAuthError + jsval"
  validateTestPhoneNumbers :: "jsval \<Rightarrow> FirebaseAuthError + unit"
  SmsRegionsAuthConfig_validate :: "jsval \<Rightarrow> FirebaseAuthError + unit"
  RecaptchaAuthConfig_buildServerRequest :: "jsval \<Rightarrow> FirebaseAuthError + jsval"
  PasswordPolicyAuthConfig_buildServerRequest :: "jsval \<Rightarrow> FirebaseAuthError + jsval"
  EmailPrivacyAuthConfig_validate :: "jsval \<Rightarrow> FirebaseAuthError + unit"
  isNonNullObject :: "jsval \<Rightarrow> bool"
  isNonEmptyString :: "jsval \<Rightarrow> bool"
  EmailSignInConfig_new :: "jsval \<Rightarrow> FirebaseAuthError + jsval"
  MultiFactorAuthConfig_new :: "jsval \<Rightarrow> FirebaseAuthError + jsval"
  RecaptchaAuthConfig_new :: "jsval \<Rightarrow> FirebaseAuthError + jsval"
  PasswordPolicyAuthConfig_new :: "jsval \<Rightarrow> FirebaseAuthError + jsval"
  deepCopy :: "jsval \<Rightarrow> jsval"

subsection \<open>Tenant.validate\<close>

definition validKeys :: "string list" where
  "validKeys = [''displayName'', ''emailSignInConfig'', ''anonymousSignInEnabled'',
     ''multiFactorConfig'', ''testPhoneNumbers'', ''smsRegionConfig'', ''recaptchaConfig'',
     ''passwordPolicyConfig'', ''emailPrivacyConfig'']"

text \<open>
  \<^verbatim>\<open>validKeys\<close> is an object literal and \<^verbatim>\<open>key in validKeys\<close> also finds what the
  literal inherits from \<^verbatim>\<open>Object.prototype\<close>.
\<close>

definition objectPrototypeKeys :: "string list" where
  "objectPrototypeKeys = [''constructor'', ''__defineGetter__'', ''__defineSetter__'',
     ''hasOwnProperty'', ''__lookupGetter__'', ''__lookupSetter__'', ''isPrototypeOf'',
     ''propertyIsEnumerable'', ''toString'', ''valueOf'', ''__proto__'', ''toLocaleString'']"

definition in_validKeys :: "string \<Rightarrow> bool" where
  "in_validKeys key = (key \<in> set validKeys \<or> key \<in> set objectPrototypeKeys)"

definition validate :: "auth_config \<Rightarrow> (string \<times> jsval) list \<Rightarrow> bool \<Rightarrow> FirebaseAuthError + unit" where
  \<open>validate ac request createRequest =
     (let label = (if createRequest then ''CreateTenantRequest'' else ''UpdateTenantRequest'')
      in
      if \<not> isNonNullObject ac (JObj request)
      then Inl (FirebaseAuthError INVALID_ARGUMENT
                  (''"'' @ label @ ''" must be a valid non-null object.''))
      else
      case find (\<lambda>key. \<not> in_validKeys key) (map fst request) of
        Some key \<Rightarrow>
          Inl (FirebaseAuthError INVALID_ARGUMENT
                 (''"'' @ key @ ''" is not a valid '' @ label @ '' parameter.''))
      | None \<Rightarrow>
      if obj_get request ''displayName'' \<noteq> JUndefined \<and>
         \<not> isNonEmptyString ac (obj_get request ''displayName'')
      then Inl (FirebaseAuthError INVALID_ARGUMENT
                  (''"'' @ label @ ''.displayName" must be a valid non-empty string.''))
      else
      and_then
        (if obj_get request ''emailSignInConfig'' \<noteq> JUndefined
         then and_then
                (EmailSignInConfig_buildServerRequest ac (obj_get request ''emailSignInConfig''))
                (\<lambda>_. Inr ())
         else Inr ())
      (\<lambda>_. and_then
        (if obj_get request ''testPhoneNumbers'' \<noteq> JUndefined \<and>
            obj_get request ''testPhoneNumbers'' \<noteq> JNull
         then validateTestPhoneNumbers ac (obj_get request ''testPhoneNumbers'')
         else if obj_get request ''testPhoneNumbers'' = JNull \<and> createRequest
         then Inl (FirebaseAuthError INVALID_ARGUMENT
                     (''"'' @ label @ ''.testPhoneNumbers" must be a non-null object.''))
         else Inr ())
      (\<lambda>_. and_then
        (if obj_get request ''multiFactorConfig'' \<noteq> JUndefined
         then and_then
                (MultiFactorAuthConfig_buildServerRequest ac (obj_get request ''multiFactorConfig''))
                (\<lambda>_. Inr ())
         else Inr ())
      (\<lambda>_. and_then
        (if obj_get request ''smsRegionConfig'' \<noteq> JUndefined
         then SmsRegionsAuthConfig_validate ac (obj_get request ''smsRegionConfig'')
         else Inr ())
      (\<lambda>_. and_then
        (if obj_get request ''recaptchaConfig'' \<noteq> JUndefined
         then and_then
                (RecaptchaAuthConfig_buildServerRequest ac (obj_get request ''recaptchaConfig''))
                (\<lambda>_. Inr ())
         else Inr ())
      (\<lambda>_. and_then
        (if obj_get request ''passwordPolicyConfig'' \<noteq> JUndefined
         then and_then
                (PasswordPolicyAuthConfig_buildServerRequest ac
                   (obj_get request ''passwordPolicyConfig''))
                (\<lambda>_. Inr ())
         else Inr ())
      (\<lambda>_.
        if obj_get request ''emailPrivacyConfig'' \<noteq> JUndefined
        then EmailPrivacyAuthConfig_validate ac (obj_get request ''emailPrivacyConfig'')
        else Inr ())))))))\<close>

subsection \<open>Tenant.buildServerRequest\<close>

definition buildServerRequest ::
  "auth_config \<Rightarrow> (string \<times> jsval) list \<Rightarrow> bool \<Rightarrow> FirebaseAuthError + (string \<times> jsval) list" where
  "buildServerRequest ac tenantOptions createRequest =
     and_then (validate ac tenantOptions createRequest)
     (\<lambda>_. and_then
        (if obj_get tenantOptions ''emailSignInConfig'' \<noteq> JUndefined
         then EmailSignInConfig_buildServerRequest ac (obj_get tenantOptions ''emailSignInConfig'')
         else Inr [])
     (\<lambda>request.
        let request =
              (if obj_get tenantOptions ''displayName'' \<noteq> JUndefined
               then obj_set request ''displayName'' (obj_get tenantOptions ''displayName'')
               else request);
            request =
              (if obj_get tenantOptions ''anonymousSignInEnabled'' \<noteq> JUndefined
               then obj_set request ''enableAnonymousUser''
                      (obj_get tenantOptions ''anonymousSignInEnabled'')
               else request)
        in and_then
        (if obj_get tenantOptions ''multiFactorConfig'' \<noteq> JUndefined
         then and_then
                (MultiFactorAuthConfig_buildServerRequest ac
                   (obj_get tenantOptions ''multiFactorConfig''))
                (\<lambda>v. Inr (obj_set request ''mfaConfig'' v))
         else Inr request)
     (\<lambda>request.
        let request =
              (if obj_get tenantOptions ''testPhoneNumbers'' \<noteq> JUndefined
               then obj_set request ''testPhoneNumbers''
                      (if obj_get tenantOptions ''testPhoneNumbers'' = JNull \<or>
                          obj_get tenantOptions ''testPhoneNumbers'' = JUndefined
                       then JObj []
                       else obj_get tenantOptions ''testPhoneNumbers'')
               else request);
            request =
              (if obj_get tenantOptions ''smsRegionConfig'' \<noteq> JUndefined
               then obj_set request ''smsRegionConfig'' (obj_get tenantOptions ''smsRegionConfig'')
               else request)
        in and_then
        (if obj_get tenantOptions ''recaptchaConfig'' \<noteq> JUndefined
         then and_then
                (RecaptchaAuthConfig_buildServerRequest ac
                   (obj_get tenantOptions ''recaptchaConfig''))
                (\<lambda>v. Inr (obj_set request ''recaptchaConfig'' v))
         else Inr request)
     (\<lambda>request. and_then
        (if obj_get tenantOptions ''passwordPolicyConfig'' \<noteq> JUndefined
         then and_then
                (PasswordPolicyAuthConfig_buildServerRequest ac
                   (obj_get tenantOptions ''passwordPolicyConfig''))
                (\<lambda>v. Inr (obj_set request ''passwordPolicyConfig'' v))
         else Inr request)
     (\<lambda>request.
        Inr (if obj_get tenantOptions ''emailPrivacyConfig'' \<noteq> JUndefined
             then obj_set request ''emailPrivacyConfig''
                    (obj_get tenantOptions ''emailPrivacyConfig'')
             else request))))))"

subsection \<open>Tenant.getTenantIdFromResourceName\<close>

text \<open>
  The characters of the model are the 8-bit characters of HOL strings; the line
  terminators among them, which \<^verbatim>\<open>.\<close> does not match, are LF and CR.
\<close>

definition isLineTerminator :: "char \<Rightarrow> bool" where
  "isLineTerminator c = (c = CHR 0x0A \<or> c = CHR 0x0D)"

text \<open>
  \<^verbatim>\<open>resourceName.match(/\/tenants\/(.*)$/)\<close>: the start positions are tried from the
  left. At a position the literal must follow, and the group must reach the end of the
  input, which it can exactly when no line terminator is left. The result holds the
  matched text and the group.
\<close>

fun match_tenants :: "string \<Rightarrow> string list option" where
  "match_tenants [] = None"
| "match_tenants (c # cs) =
     (if take 9 (c # cs) = ''/tenants/'' \<and> \<not> list_ex isLineTerminator (drop 9 (c # cs))
      then Some [c # cs, drop 9 (c # cs)]
      else match_tenants cs)"

definition getTenantIdFromResourceName :: "string \<Rightarrow> string option" where
  "getTenantIdFromResourceName resourceName =
     (case match_tenants resourceName of
        None \<Rightarrow> None
      | Some matchTenantRes \<Rightarrow>
          if length matchTenantRes < 2 then None else Some (matchTenantRes ! 1))"

subsection \<open>The Tenant constructor\<close>

text \<open>
  \<^verbatim>\<open>TenantServerResponse\<close>: the required \<^verbatim>\<open>name\<close>, a string, and the other properties
  of the response object.
\<close>

record TenantServerResponse =
  name :: string
  props :: "(string \<times> jsval) list"

definition response_object :: "TenantServerResponse \<Rightarrow> jsval" where
  "response_object response = JObj ((''name'', JStr (name response)) # props response)"

record Tenant =
  tenantId :: string
  displayName :: jsval
  emailSignInConfig_ :: jsval
  anonymousSignInEnabled :: bool
  multiFactorConfig_ :: jsval
  testPhoneNumbers :: jsval
  smsRegionConfig :: jsval
  recaptchaConfig_ :: jsval
  passwordPolicyConfig :: jsval
  emailPrivacyConfig :: jsval

definition invalid_tenant_response :: FirebaseAuthError where
  "invalid_tenant_response =
     FirebaseAuthError INTERNAL_ERROR ''INTERNAL ASSERT FAILED: Invalid tenant response''"

definition Tenant_constructor :: "auth_config \<Rightarrow> TenantServerResponse \<Rightarrow> FirebaseAuthError + Tenant" where
  "Tenant_constructor ac response =
     (case getTenantIdFromResourceName (name response) of
        None \<Rightarrow> Inl invalid_tenant_response
      | Some tid \<Rightarrow>
        if tid = [] then Inl invalid_tenant_response
        else and_then
          (case EmailSignInConfig_new ac (response_object response) of
             Inr c \<Rightarrow> Inr c
           | Inl e \<Rightarrow> EmailSignInConfig_new ac (JObj [(''allowPasswordSignup'', JBool False)]))
        (\<lambda>esc. and_then
          (if obj_get (props response) ''mfaConfig'' \<noteq> JUndefined
           then MultiFactorAuthConfig_new ac (obj_get (props response) ''mfaConfig'')
           else Inr JUndefined)
        (\<lambda>mfa. and_then
          (if obj_get (props response) ''recaptchaConfig'' \<noteq> JUndefined
           then RecaptchaAuthConfig_new ac (obj_get (props response) ''recaptchaConfig'')
           else Inr JUndefined)
        (\<lambda>rc. and_then
          (if obj_get (props response) ''passwordPolicyConfig'' \<noteq> JUndefined
           then PasswordPolicyAuthConfig_new ac (obj_get (props response) ''passwordPolicyConfig'')
           else Inr JUndefined)
        (\<lambda>pp. Inr
          \<lparr>tenantId = tid,
           displayName = obj_get (props response) ''displayName'',
           emailSignInConfig_ = esc,
           anonymousSignInEnabled = truthy (obj_get (props response) ''enableAnonymousUser''),
           multiFactorConfig_ = mfa,
           testPhoneNumbers =
             (if obj_get (props response) ''testPhoneNumbers'' \<noteq> JUndefined
              then deepCopy ac
                     (if truthy (obj_get (props response) ''testPhoneNumbers'')
                      then obj_get (props response) ''testPhoneNumbers'' else JObj [])
              else JUndefined),
           smsRegionConfig =
             (if obj_get (props response) ''smsRegionConfig'' \<noteq> JUndefined
              then deepCopy ac (obj_get (props response) ''smsRegionConfig'')
              else JUndefined),
           recaptchaConfig_ = rc,
           passwordPolicyConfig = pp,
           emailPrivacyConfig =
             (if obj_get (props response) ''emailPrivacyConfig'' \<noteq> JUndefined
              then deepCopy ac (obj_get (props response) ''emailPrivacyConfig'')
              else JUndefined)\<rparr>)))))"

text \<open>A string without a line terminator.\<close>

definition lt_free :: "string \<Rightarrow> bool" where
  "lt_free s = (\<not> list_ex isLineTerminator s)"

section \<open>Example instances\<close>

text \<open>
  A classifier, clients that answer every request with a given outcome, and a few
  responses, on which the theorems below are instantiated.
\<close>

definition example_imports :: "string module_imports" where
  "example_imports =
     \<lparr>createFirebaseError =
        (\<lambda>r. if status r = 404 then ''messaging/registration-token-not-registered''
             else ''messaging/unknown-error''),
      getErrorCode = (\<lambda>d. case d of JObj kvs \<Rightarrow> obj_get kvs ''error'' | _ \<Rightarrow> JNull),
      unableToParseResponse = (\<lambda>r. ''app/unable-to-parse-response''),
      getSdkVersion = ''12.0.0'',
      nodeVersion = ''18.0.0''\<rparr>"

definition single_handler ::
  "(string, RequestResponse) promise \<Rightarrow> (string, unit, unit) FirebaseMessagingRequestHandler" where
  "single_handler out =
     \<lparr>httpClient = (\<lambda>_. out), http2Client = (\<lambda>_. out),
      batchClient = (\<lambda>_. Inl (FirebaseError ''app/network-error''))\<rparr>"

definition batch_handler ::
  "(string, RequestResponse list) promise \<Rightarrow> (string, unit, unit) FirebaseMessagingRequestHandler" where
  "batch_handler out =
     \<lparr>httpClient = (\<lambda>_. Inl (FirebaseError ''app/network-error'')),
      http2Client = (\<lambda>_. Inl (FirebaseError ''app/network-error'')),
      batchClient = (\<lambda>_. out)\<rparr>"

definition sent :: "string \<Rightarrow> RequestResponse" where
  "sent n = \<lparr>status = 200, data = JObj [(''name'', JStr n)], isJson = True\<rparr>"

definition not_found :: RequestResponse where
  "not_found =
     \<lparr>status = 404,
      data = JObj [(''error'', JObj [(''status'', JStr ''NOT_FOUND'')])],
      isJson = True\<rparr>"

definition null_body :: RequestResponse where
  "null_body = \<lparr>status = 200, data = JNull, isJson = True\<rparr>"

definition not_json :: RequestResponse where
  "not_json = \<lparr>status = 200, data = JUndefined, isJson = False\<rparr>"

definition session_handler :: "(string, nat, unit) FirebaseMessagingRequestHandler" where
  "session_handler =
     \<lparr>httpClient = (\<lambda>_. Inl (FirebaseError ''app/network-error'')),
      http2Client =
        (\<lambda>request. if http2SessionHandler request = 7 then Inr (sent ''m1'')
                   else Inr not_found),
      batchClient = (\<lambda>_. Inl (FirebaseError ''app/network-error''))\<rparr>"

definition empty_body :: RequestResponse where
  "empty_body = \<lparr>status = 200, data = JObj [], isJson = True\<rparr>"

definition example_auth_config :: auth_config where
  \<open>example_auth_config =
     \<lparr>EmailSignInConfig_buildServerRequest =
        (\<lambda>v. case v of
               JObj kvs \<Rightarrow> Inr [(''allowPasswordSignup'', obj_get kvs ''enabled'')]
             | _ \<Rightarrow> Inl (FirebaseAuthError INVALID_ARGUMENT
                          ''"EmailSignInConfig" must be a non-null object.'')),
      MultiFactorAuthConfig_buildServerRequest = (\<lambda>v. Inr v),
      validateTestPhoneNumbers = (\<lambda>v. Inr ()),
      SmsRegionsAuthConfig_validate = (\<lambda>v. Inr ()),
      RecaptchaAuthConfig_buildServerRequest = (\<lambda>v. Inr v),
      PasswordPolicyAuthConfig_buildServerRequest = (\<lambda>v. Inr v),
      EmailPrivacyAuthConfig_validate = (\<lambda>v. Inr ()),
      isNonNullObject = (\<lambda>v. case v of JObj kvs \<Rightarrow> True | _ \<Rightarrow> False),
      isNonEmptyString = (\<lambda>v. case v of JStr s \<Rightarrow> s \<noteq> [] | _ \<Rightarrow> False),
      EmailSignInConfig_new = (\<lambda>v. Inr v),
      MultiFactorAuthConfig_new = (\<lambda>v. Inr v),
      RecaptchaAuthConfig_new = (\<lambda>v. Inr v),
      PasswordPolicyAuthConfig_new = (\<lambda>v. Inr v),
      deepCopy = (\<lambda>v. v)\<rparr>\<close>

definition null_phone_options :: "(string \<times> jsval) list" where
  "null_phone_options = [(''displayName'', JStr ''tenant-1''), (''testPhoneNumbers'', JNull)]"

section \<open>Properties of the messaging request handler\<close>

subsection \<open>The operations, unfolded\<close>

lemma read_name_eq:
  "read_name v = (if nullish v then Inl TypeError else Inr (body_name v))"
  by (cases v) (simp_all add: nullish_def)

lemma buildSendResponse_eq:
  "buildSendResponse im r =
     (if status r = 200
      then (if \<not> isJson r then Inl (FirebaseError (unableToParseResponse im r))
            else if nullish (data r) then Inl TypeError
            else Inr \<lparr>success = True, messageId = Some (body_name (data r)), error = None\<rparr>)
      else Inr \<lparr>success = False, messageId = None, error = Some (createFirebaseError im r)\<rparr>)"
  by (simp add: buildSendResponse_def read_data_def then_p_def read_name_eq)

lemma invokeRequestHandler_unfold:
  "invokeRequestHandler im this host path d =
     (case httpClient this (httpRequest im host path d) of
        Inl (RequestResponseError r) \<Rightarrow> Inl (FirebaseError (createFirebaseError im r))
      | Inl e \<Rightarrow> Inl e
      | Inr r \<Rightarrow> if isJson r \<and> \<not> truthy (getErrorCode im (data r)) then Inr (data r)
                 else Inl (FirebaseError (createFirebaseError im r)))"
  by (simp add: invokeRequestHandler_def httpRequest_def read_data_def then_p_def catch_p_def
      FIREBASE_MESSAGING_TIMEOUT_def FIREBASE_MESSAGING_HTTP_METHOD_def
      split: sum.splits thrown.splits)

lemma invokeHttp_unfold:
  "invokeHttpRequestHandlerForSendResponse im this host path d =
     (case httpClient this (httpRequest im host path d) of
        Inl (RequestResponseError r) \<Rightarrow> Inr (buildSendResponseFromError im r)
      | Inl e \<Rightarrow> Inl e
      | Inr r \<Rightarrow> buildSendResponse im r)"
  by (simp add: invokeHttpRequestHandlerForSendResponse_def httpRequest_def then_p_def
      catch_p_def buildSendResponse_eq
      FIREBASE_MESSAGING_TIMEOUT_def FIREBASE_MESSAGING_HTTP_METHOD_def
      split: sum.splits thrown.splits)

lemma invokeHttp2_unfold:
  "invokeHttp2RequestHandlerForSendResponse im this host path d s =
     (case http2Client this (http2Request im host path d s) of
        Inl (RequestResponseError r) \<Rightarrow> Inr (buildSendResponseFromError im r)
      | Inl e \<Rightarrow> Inl e
      | Inr r \<Rightarrow> buildSendResponse im r)"
  by (simp add: invokeHttp2RequestHandlerForSendResponse_def http2Request_def then_p_def
      catch_p_def buildSendResponse_eq
      FIREBASE_MESSAGING_TIMEOUT_def FIREBASE_MESSAGING_HTTP_METHOD_def
      split: sum.splits thrown.splits)

lemma map_p_Inr_length: "map_p f xs = Inr ys \<Longrightarrow> length ys = length xs"
  by (induction xs arbitrary: ys) (auto split: sum.splits)

lemma map_p_Inr_nth: "map_p f xs = Inr ys \<Longrightarrow> i < length xs \<Longrightarrow> f (xs ! i) = Inr (ys ! i)"
proof (induction xs arbitrary: ys i)
  case Nil
  then show ?case by simp
next
  case (Cons x xs)
  then show ?case by (cases i) (auto split: sum.splits)
qed

lemma map_p_Inl: "map_p f xs = Inl e \<Longrightarrow> \<exists>x\<in>set xs. f x = Inl e"
  by (induction xs) (auto split: sum.splits)

lemma map_p_buildSendResponse_Inl:
  "map_p (buildSendResponse im) parts = Inl e \<Longrightarrow> e \<noteq> RequestResponseError r"
  by (drule map_p_Inl) (auto simp: buildSendResponse_eq split: if_splits)

lemma sendBatchRequest_unfold:
  "sendBatchRequest im this requests =
     (case batchClient this requests of
        Inl (RequestResponseError r) \<Rightarrow> Inl (FirebaseError (createFirebaseError im r))
      | Inl e \<Rightarrow> Inl e
      | Inr parts \<Rightarrow>
          (case map_p (buildSendResponse im) parts of
             Inl e \<Rightarrow> Inl e
           | Inr rs \<Rightarrow> Inr \<lparr>responses = rs,
                           successCount = int (length (filter success rs)),
                           failureCount = int (length rs) - int (length (filter success rs))\<rparr>))"
  by (auto simp: sendBatchRequest_def then_p_def catch_p_def Let_def
      split: sum.splits thrown.splits dest: map_p_buildSendResponse_Inl)

lemma buildSendResponse_success:
  "buildSendResponse im r = Inr sr \<Longrightarrow> success sr = (status r = 200)"
  by (auto simp: buildSendResponse_eq split: if_splits)

lemma buildSendResponse_present:
  "buildSendResponse im r = Inr sr \<Longrightarrow> exactly_one_present sr"
  by (auto simp: buildSendResponse_eq exactly_one_present_def defined_field_def
      split: if_splits)

lemma buildSendResponseFromError_present:
  "exactly_one_present (buildSendResponseFromError im r)"
  by (simp add: buildSendResponseFromError_def exactly_one_present_def defined_field_def)

subsection \<open>Batch sends\<close>

text \<open>
  C1 does not hold of the code. For every sub-response with status 200
  \<open>buildSendResponse\<close> reads \<^verbatim>\<open>response.data.name\<close> without a check of the body. When
  the body of such a sub-response is \<^verbatim>\<open>null\<close>, or is not JSON, the read throws; what is
  thrown is not a \<^verbatim>\<open>RequestResponseError\<close>, so the catch handler throws it again and
  the whole batch is rejected, although the batch client returned one sub-response for
  each of the two sub-requests.
\<close>

theorem sendBatchRequest_unread_body_rejects:
  "batchClient (batch_handler (Inr [sent ''m1'', null_body])) [(), ()]
     = Inr [sent ''m1'', null_body] \<and>
   sendBatchRequest example_imports (batch_handler (Inr [sent ''m1'', null_body])) [(), ()]
     = Inl TypeError \<and>
   batchClient (batch_handler (Inr [sent ''m1'', not_json])) [(), ()]
     = Inr [sent ''m1'', not_json] \<and>
   sendBatchRequest example_imports (batch_handler (Inr [sent ''m1'', not_json])) [(), ()]
     = Inl (FirebaseError ''app/unable-to-parse-response'')"
  by (simp add: sendBatchRequest_unfold batch_handler_def buildSendResponse_eq sent_def
      null_body_def not_json_def nullish_def example_imports_def)

text \<open>
  Where every sub-response with status 200 carries a parsed body other than \<^verbatim>\<open>null\<close>,
  the batch resolves, aligned with the sub-requests and with the counts of the claim.
\<close>

lemma map_p_total:
  "(\<forall>x\<in>set xs. \<exists>y. f x = Inr y) \<Longrightarrow> \<exists>ys. map_p f xs = Inr ys"
  by (induction xs) (auto split: sum.splits)

lemma sendBatchRequest_aligned:
  assumes "batchClient this requests = Inr parts"
    and "length parts = length requests"
    and "\<forall>p\<in>set parts. status p = 200 \<longrightarrow> isJson p \<and> \<not> nullish (data p)"
  shows "\<exists>b. sendBatchRequest im this requests = Inr b \<and>
           length (responses b) = length requests \<and>
           (\<forall>i<length requests.
              buildSendResponse im (parts ! i) = Inr (responses b ! i) \<and>
              success (responses b ! i) = (status (parts ! i) = 200)) \<and>
           successCount b = int (length (filter success (responses b))) \<and>
           failureCount b = int (length requests) - successCount b \<and>
           successCount b + failureCount b = int (length (responses b))"
proof -
  from assms(3) have "\<forall>p\<in>set parts. \<exists>y. buildSendResponse im p = Inr y"
    by (simp add: buildSendResponse_eq)
  then obtain rs where rs: "map_p (buildSendResponse im) parts = Inr rs"
    using map_p_total by blast
  have len: "length rs = length requests"
    using map_p_Inr_length [OF rs] assms(2) by simp
  have nth: "buildSendResponse im (parts ! i) = Inr (rs ! i)" if "i < length requests" for i
    using map_p_Inr_nth [OF rs] that assms(2) by simp
  have succ: "success (rs ! i) = (status (parts ! i) = 200)" if "i < length requests" for i
    using nth [OF that] by (rule buildSendResponse_success)
  let ?b = "\<lparr>responses = rs, successCount = int (length (filter success rs)),
             failureCount = int (length rs) - int (length (filter success rs))\<rparr>"
  have "sendBatchRequest im this requests = Inr ?b"
    by (simp add: sendBatchRequest_unfold assms(1) rs)
  then show ?thesis using len nth succ by auto
qed

text \<open>
  C6. When the batch client answers the empty list of sub-requests with the empty list
  of sub-responses, \<^verbatim>\<open>sendBatchRequest\<close> resolves with an empty \<^verbatim>\<open>responses\<close> array,
  \<^verbatim>\<open>successCount\<close> 0 and \<^verbatim>\<open>failureCount\<close> 0.
\<close>

theorem sendBatchRequest_empty:
  assumes "batchClient this [] = Inr []"
  shows "sendBatchRequest im this [] =
           Inr \<lparr>responses = [], successCount = 0, failureCount = 0\<rparr>"
  using assms by (simp add: sendBatchRequest_def then_p_def catch_p_def)

theorem sendBatchRequest_empty_witness:
  "batchClient (batch_handler (Inr [])) [] = Inr [] \<and>
   sendBatchRequest example_imports (batch_handler (Inr [])) []
     = Inr \<lparr>responses = [], successCount = 0, failureCount = 0\<rparr>"
proof -
  have h: "batchClient (batch_handler (Inr [])) [] = Inr []"
    by (simp add: batch_handler_def)
  from sendBatchRequest_empty [OF h, of example_imports] h show ?thesis by simp
qed

subsection \<open>Shape of a SendResponse\<close>

text \<open>
  C2, as amended. Every \<^verbatim>\<open>SendResponse\<close> that a single send over either transport
  resolves with, and every element of the \<^verbatim>\<open>responses\<close> of a batch, has the
  \<^verbatim>\<open>messageId\<close> property exactly when \<^verbatim>\<open>success\<close> is true and the \<^verbatim>\<open>error\<close>
  property exactly when \<^verbatim>\<open>success\<close> is false, and a failure has no defined
  \<^verbatim>\<open>messageId\<close>. The \<^verbatim>\<open>messageId\<close> of a success is what the \<^verbatim>\<open>name\<close> field of the
  body holds, which may be \<^verbatim>\<open>undefined\<close>.
\<close>

theorem sendResponse_one_present:
  "(invokeHttpRequestHandlerForSendResponse im this host path d = Inr sr
      \<longrightarrow> exactly_one_present sr) \<and>
   (invokeHttp2RequestHandlerForSendResponse im this host path d s = Inr sr
      \<longrightarrow> exactly_one_present sr) \<and>
   (sendBatchRequest im this requests = Inr b
      \<longrightarrow> (\<forall>x\<in>set (responses b). exactly_one_present x))"
proof (intro conjI impI)
  assume "invokeHttpRequestHandlerForSendResponse im this host path d = Inr sr"
  then show "exactly_one_present sr"
    by (auto simp: invokeHttp_unfold buildSendResponseFromError_present
        split: sum.splits thrown.splits dest: buildSendResponse_present)
next
  assume "invokeHttp2RequestHandlerForSendResponse im this host path d s = Inr sr"
  then show "exactly_one_present sr"
    by (auto simp: invokeHttp2_unfold buildSendResponseFromError_present
        split: sum.splits thrown.splits dest: buildSendResponse_present)
next
  assume a: "sendBatchRequest im this requests = Inr b"
  then obtain parts where m: "map_p (buildSendResponse im) parts = Inr (responses b)"
    by (auto simp: sendBatchRequest_unfold split: sum.splits thrown.splits)
  show "\<forall>x\<in>set (responses b). exactly_one_present x"
  proof
    fix x assume "x \<in> set (responses b)"
    then obtain i where i: "i < length (responses b)" "responses b ! i = x"
      by (auto simp: in_set_conv_nth)
    from m have "length (responses b) = length parts" by (rule map_p_Inr_length)
    with m i have "buildSendResponse im (parts ! i) = Inr x"
      using map_p_Inr_nth by fastforce
    then show "exactly_one_present x" by (rule buildSendResponse_present)
  qed
qed

theorem sendResponse_one_present_witness:
  "invokeHttpRequestHandlerForSendResponse example_imports (single_handler (Inr (sent ''m1'')))
      ''h'' ''/p'' JNull
     = Inr \<lparr>success = True, messageId = Some (JStr ''m1''), error = None\<rparr> \<and>
   exactly_one_present
     \<lparr>success = True, messageId = Some (JStr ''m1''), error = (None :: string option)\<rparr> \<and>
   invokeHttp2RequestHandlerForSendResponse example_imports (single_handler (Inr not_found))
      ''h'' ''/p'' JNull ()
     = Inr \<lparr>success = False, messageId = None,
            error = Some ''messaging/registration-token-not-registered''\<rparr> \<and>
   exactly_one_present
     \<lparr>success = False, messageId = None,
      error = Some ''messaging/registration-token-not-registered''\<rparr> \<and>
   sendBatchRequest example_imports (batch_handler (Inr [not_found])) [()]
     = Inr \<lparr>responses = [\<lparr>success = False, messageId = None,
                           error = Some ''messaging/registration-token-not-registered''\<rparr>],
            successCount = 0, failureCount = 1\<rparr>"
proof -
  let ?ok = "\<lparr>success = True, messageId = Some (JStr ''m1''), error = (None :: string option)\<rparr>"
  let ?ko = "\<lparr>success = False, messageId = None,
              error = Some ''messaging/registration-token-not-registered''\<rparr>"
  have a: "invokeHttpRequestHandlerForSendResponse example_imports
             (single_handler (Inr (sent ''m1''))) ''h'' ''/p'' JNull = Inr ?ok"
    by (simp add: invokeHttp_unfold single_handler_def buildSendResponse_eq sent_def
        nullish_def obj_get_def)
  have b: "invokeHttp2RequestHandlerForSendResponse example_imports
             (single_handler (Inr not_found)) ''h'' ''/p'' JNull () = Inr ?ko"
    by (simp add: invokeHttp2_unfold single_handler_def buildSendResponse_eq not_found_def
        example_imports_def)
  have c: "sendBatchRequest example_imports (batch_handler (Inr [not_found])) [()]
             = Inr \<lparr>responses = [?ko], successCount = 0, failureCount = 1\<rparr>"
    by (simp add: sendBatchRequest_unfold batch_handler_def buildSendResponse_eq not_found_def
        example_imports_def)
  from sendResponse_one_present
         [where im = example_imports and this = "single_handler (Inr (sent ''m1''))"
            and host = "''h''" and path = "''/p''" and d = JNull and sr = ?ok]
       a
  have "exactly_one_present ?ok" by blast
  moreover
  from sendResponse_one_present
         [where im = example_imports and this = "single_handler (Inr not_found)"
            and host = "''h''" and path = "''/p''" and d = JNull and s = "()" and sr = ?ko]
       b
  have "exactly_one_present ?ko" by blast
  moreover
  from sendResponse_one_present
         [where im = example_imports and this = "batch_handler (Inr [not_found])"
            and requests = "[()]"
            and b = "\<lparr>responses = [?ko], successCount = 0, failureCount = 1\<rparr>"]
       c
  have "\<forall>x\<in>set [?ko]. exactly_one_present x" by simp
  ultimately show ?thesis using a b c by simp
qed

text \<open>
  C2 as stated fails: a response with status 200 whose body has no \<^verbatim>\<open>name\<close> gives a
  success whose \<^verbatim>\<open>messageId\<close> is \<^verbatim>\<open>undefined\<close>, so neither \<^verbatim>\<open>messageId\<close> nor
  \<^verbatim>\<open>error\<close> is defined.
\<close>

theorem sendResponse_neither_defined:
  "invokeHttpRequestHandlerForSendResponse example_imports (single_handler (Inr empty_body))
      ''h'' ''/p'' JNull
     = Inr \<lparr>success = True, messageId = Some JUndefined, error = None\<rparr> \<and>
   \<not> defined_field (Some JUndefined)"
  by (simp add: invokeHttp_unfold single_handler_def buildSendResponse_eq empty_body_def
      nullish_def obj_get_def defined_field_def)

subsection \<open>Single sends\<close>

text \<open>
  C3, as amended. \<^verbatim>\<open>invokeHttpRequestHandlerForSendResponse\<close> resolves to a failure
  whose error is the classifier's when the client returns a response with a status other
  than 200 or throws a \<^verbatim>\<open>RequestResponseError\<close>, and resolves to a success whose
  \<^verbatim>\<open>messageId\<close> is the \<^verbatim>\<open>name\<close> field of the body when the client returns a response
  with status 200 whose body is parsed JSON other than \<^verbatim>\<open>null\<close>. An error already in
  the SDK's format that the client throws is not mapped to a failure: the operation
  rejects with it.
\<close>

theorem invokeHttp_resolves:
  "(httpClient this (httpRequest im host path d) = Inr r \<and> status r \<noteq> 200 \<longrightarrow>
      invokeHttpRequestHandlerForSendResponse im this host path d
        = Inr \<lparr>success = False, messageId = None,
               error = Some (createFirebaseError im r)\<rparr>) \<and>
   (httpClient this (httpRequest im host path d) = Inr r \<and> status r = 200 \<and>
      isJson r \<and> \<not> nullish (data r) \<longrightarrow>
      invokeHttpRequestHandlerForSendResponse im this host path d
        = Inr \<lparr>success = True, messageId = Some (body_name (data r)), error = None\<rparr>) \<and>
   (httpClient this (httpRequest im host path d) = Inl (RequestResponseError r) \<longrightarrow>
      invokeHttpRequestHandlerForSendResponse im this host path d
        = Inr \<lparr>success = False, messageId = None,
               error = Some (createFirebaseError im r)\<rparr>) \<and>
   (httpClient this (httpRequest im host path d) = Inl (FirebaseError n) \<longrightarrow>
      invokeHttpRequestHandlerForSendResponse im this host path d = Inl (FirebaseError n))"
  by (simp add: invokeHttp_unfold buildSendResponse_eq buildSendResponseFromError_def)

theorem invokeHttp_resolves_witness:
  "invokeHttpRequestHandlerForSendResponse example_imports (single_handler (Inr not_found))
      ''fcm.googleapis.com'' ''/v1/projects/p/messages:send'' (JObj [])
     = Inr \<lparr>success = False, messageId = None,
            error = Some ''messaging/registration-token-not-registered''\<rparr> \<and>
   invokeHttpRequestHandlerForSendResponse example_imports
      (single_handler (Inr (sent ''projects/p/messages/123'')))
      ''fcm.googleapis.com'' ''/v1/projects/p/messages:send'' (JObj [])
     = Inr \<lparr>success = True, messageId = Some (JStr ''projects/p/messages/123''),
            error = None\<rparr> \<and>
   invokeHttpRequestHandlerForSendResponse example_imports
      (single_handler (Inl (RequestResponseError not_found)))
      ''fcm.googleapis.com'' ''/v1/projects/p/messages:send'' (JObj [])
     = Inr \<lparr>success = False, messageId = None,
            error = Some ''messaging/registration-token-not-registered''\<rparr> \<and>
   invokeHttpRequestHandlerForSendResponse example_imports
      (single_handler (Inl (FirebaseError ''app/network-timeout'')))
      ''fcm.googleapis.com'' ''/v1/projects/p/messages:send'' (JObj [])
     = Inl (FirebaseError ''app/network-timeout'')"
proof -
  let ?h = "''fcm.googleapis.com''" and ?p = "''/v1/projects/p/messages:send''"
  note t = invokeHttp_resolves [where im = example_imports and host = ?h and path = ?p
      and d = "JObj []"]
  have 1: "httpClient (single_handler (Inr not_found))
             (httpRequest example_imports ?h ?p (JObj [])) = Inr not_found \<and>
           status not_found \<noteq> 200"
    by (simp add: single_handler_def not_found_def)
  have 2: "httpClient (single_handler (Inr (sent ''projects/p/messages/123'')))
             (httpRequest example_imports ?h ?p (JObj []))
             = Inr (sent ''projects/p/messages/123'') \<and>
           status (sent ''projects/p/messages/123'') = 200 \<and>
           isJson (sent ''projects/p/messages/123'') \<and>
           \<not> nullish (data (sent ''projects/p/messages/123''))"
    by (simp add: single_handler_def sent_def nullish_def)
  have 3: "httpClient (single_handler (Inl (RequestResponseError not_found)))
             (httpRequest example_imports ?h ?p (JObj []))
             = Inl (RequestResponseError not_found)"
    by (simp add: single_handler_def)
  have 4: "httpClient (single_handler (Inl (FirebaseError ''app/network-timeout'')))
             (httpRequest example_imports ?h ?p (JObj []))
             = Inl (FirebaseError ''app/network-timeout'')"
    by (simp add: single_handler_def)
  have e: "createFirebaseError example_imports not_found
             = ''messaging/registration-token-not-registered''"
    by (simp add: example_imports_def not_found_def)
  have n: "body_name (data (sent ''projects/p/messages/123''))
             = JStr ''projects/p/messages/123''"
    by (simp add: sent_def obj_get_def)
  from t [where this = "single_handler (Inr not_found)" and r = not_found] 1
       t [where this = "single_handler (Inr (sent ''projects/p/messages/123''))"
            and r = "sent ''projects/p/messages/123''"] 2
       t [where this = "single_handler (Inl (RequestResponseError not_found))"
            and r = not_found] 3
       t [where this = "single_handler (Inl (FirebaseError ''app/network-timeout''))"
            and n = "''app/network-timeout''"] 4
  show ?thesis by (simp only: e n simp_thms)
qed

text \<open>
  C3 as stated fails: a transport error that the client throws in the SDK's format, not
  as a \<^verbatim>\<open>RequestResponseError\<close>, is not mapped to a failure; the catch handler throws
  it again and the operation rejects.
\<close>

theorem invokeHttp_rethrows_transport_error:
  "httpClient (single_handler (Inl (FirebaseError ''app/network-error'')))
     (httpRequest example_imports ''fcm.googleapis.com'' ''/v1/projects/p/messages:send''
        (JObj []))
     = Inl (FirebaseError ''app/network-error'') \<and>
   invokeHttpRequestHandlerForSendResponse example_imports
      (single_handler (Inl (FirebaseError ''app/network-error'')))
      ''fcm.googleapis.com'' ''/v1/projects/p/messages:send'' (JObj [])
     = Inl (FirebaseError ''app/network-error'')"
  by (simp add: invokeHttp_unfold single_handler_def)

text \<open>
  C8. The two single-send operations apply one contract, \<open>settle_send\<close>, to the outcome
  of their client: the HTTP/1.1 operation to what \<^verbatim>\<open>httpClient\<close> answers to the request
  descriptor, the HTTP/2 operation to what \<^verbatim>\<open>http2Client\<close> answers to the same
  descriptor extended by the session handle of the caller. So for the same response or
  thrown error the two settle alike.
\<close>

theorem invokeHttp2_same_contract:
  "invokeHttp2RequestHandlerForSendResponse im this host path d s
     = settle_send im
         (http2Client this
            \<lparr>httpMethod = FIREBASE_MESSAGING_HTTP_METHOD,
             url = ''https://'' @ host @ path,
             reqData = d,
             headers = LEGACY_FIREBASE_MESSAGING_HEADERS im,
             timeout = FIREBASE_MESSAGING_TIMEOUT,
             http2SessionHandler = s\<rparr>) \<and>
   invokeHttpRequestHandlerForSendResponse im this host path d
     = settle_send im
         (httpClient this
            \<lparr>httpMethod = FIREBASE_MESSAGING_HTTP_METHOD,
             url = ''https://'' @ host @ path,
             reqData = d,
             headers = LEGACY_FIREBASE_MESSAGING_HEADERS im,
             timeout = FIREBASE_MESSAGING_TIMEOUT\<rparr>) \<and>
   (http2Client this (http2Request im host path d s)
      = httpClient this (httpRequest im host path d) \<longrightarrow>
    invokeHttp2RequestHandlerForSendResponse im this host path d s
      = invokeHttpRequestHandlerForSendResponse im this host path d)"
  by (simp add: invokeHttp2_unfold invokeHttp_unfold settle_send_def http2Request_def
      httpRequest_def FIREBASE_MESSAGING_TIMEOUT_def FIREBASE_MESSAGING_HTTP_METHOD_def)

theorem invokeHttp2_same_contract_witness:
  "invokeHttp2RequestHandlerForSendResponse example_imports session_handler
      ''h'' ''/p'' JNull 7
     = Inr \<lparr>success = True, messageId = Some (JStr ''m1''), error = None\<rparr> \<and>
   invokeHttp2RequestHandlerForSendResponse example_imports session_handler
      ''h'' ''/p'' JNull 8
     = Inr \<lparr>success = False, messageId = None,
            error = Some ''messaging/registration-token-not-registered''\<rparr> \<and>
   invokeHttpRequestHandlerForSendResponse example_imports session_handler
      ''h'' ''/p'' JNull
     = Inl (FirebaseError ''app/network-error'') \<and>
   http2Client (single_handler (Inr (sent ''m1'')))
      (http2Request example_imports ''h'' ''/p'' JNull ())
     = httpClient (single_handler (Inr (sent ''m1'')))
         (httpRequest example_imports ''h'' ''/p'' JNull) \<and>
   invokeHttp2RequestHandlerForSendResponse example_imports (single_handler (Inr (sent ''m1'')))
      ''h'' ''/p'' JNull ()
     = invokeHttpRequestHandlerForSendResponse example_imports
         (single_handler (Inr (sent ''m1''))) ''h'' ''/p'' JNull"
proof -
  note t = invokeHttp2_same_contract [where im = example_imports and host = "''h''"
      and path = "''/p''" and d = JNull]
  have ok: "buildSendResponse example_imports (sent ''m1'')
              = Inr \<lparr>success = True, messageId = Some (JStr ''m1''), error = None\<rparr>"
    by (simp add: buildSendResponse_eq sent_def nullish_def obj_get_def)
  have ko: "buildSendResponse example_imports not_found
              = Inr \<lparr>success = False, messageId = None,
                     error = Some ''messaging/registration-token-not-registered''\<rparr>"
    by (simp add: buildSendResponse_eq not_found_def example_imports_def)
  have a: "invokeHttp2RequestHandlerForSendResponse example_imports session_handler
             ''h'' ''/p'' JNull 7
           = Inr \<lparr>success = True, messageId = Some (JStr ''m1''), error = None\<rparr>"
    using t [where this = session_handler and s = 7]
    by (simp add: session_handler_def settle_send_def ok)
  have b: "invokeHttp2RequestHandlerForSendResponse example_imports session_handler
             ''h'' ''/p'' JNull 8
           = Inr \<lparr>success = False, messageId = None,
                  error = Some ''messaging/registration-token-not-registered''\<rparr>"
    using t [where this = session_handler and s = 8]
    by (simp add: session_handler_def settle_send_def ko)
  have c: "invokeHttpRequestHandlerForSendResponse example_imports session_handler
             ''h'' ''/p'' JNull
           = Inl (FirebaseError ''app/network-error'')"
    using t [where this = session_handler and s = 7]
    by (simp add: session_handler_def settle_send_def)
  have h: "http2Client (single_handler (Inr (sent ''m1'')))
             (http2Request example_imports ''h'' ''/p'' JNull ())
           = httpClient (single_handler (Inr (sent ''m1'')))
               (httpRequest example_imports ''h'' ''/p'' JNull)"
    by (simp add: single_handler_def)
  have e: "invokeHttp2RequestHandlerForSendResponse example_imports
             (single_handler (Inr (sent ''m1''))) ''h'' ''/p'' JNull ()
           = invokeHttpRequestHandlerForSendResponse example_imports
               (single_handler (Inr (sent ''m1''))) ''h'' ''/p'' JNull"
    using t [where this = "single_handler (Inr (sent ''m1''))" and s = "()"] h by blast
  from a b c h e show ?thesis by (intro conjI)
qed

subsection \<open>The raw passthrough\<close>



subsection \<open>Failure of the whole batch\<close>

text \<open>
  C5. When the batch client itself fails, \<^verbatim>\<open>sendBatchRequest\<close> rejects and returns no
  \<^verbatim>\<open>BatchResponse\<close>: a \<^verbatim>\<open>RequestResponseError\<close> is replaced by the classifier's error
  for its response, any other error is thrown again as it is, so the rejection is one
  error in the SDK's format whenever the batch client failed with a
  \<^verbatim>\<open>RequestResponseError\<close> or with an error already in that format.
\<close>

theorem sendBatchRequest_encoder_failure:
  assumes "batchClient this requests = Inl e"
  shows "sendBatchRequest im this requests
           = Inl (case e of
                    RequestResponseError r \<Rightarrow> FirebaseError (createFirebaseError im r)
                  | _ \<Rightarrow> e) \<and>
         (\<forall>b. sendBatchRequest im this requests \<noteq> Inr b) \<and>
         (e \<noteq> TypeError \<longrightarrow> (\<exists>n. sendBatchRequest im this requests = Inl (FirebaseError n)))"
  using assms by (cases e) (simp_all add: sendBatchRequest_unfold)

theorem sendBatchRequest_encoder_failure_witness:
  "batchClient (batch_handler (Inl (RequestResponseError not_found))) [(), ()]
     = Inl (RequestResponseError not_found) \<and>
   sendBatchRequest example_imports (batch_handler (Inl (RequestResponseError not_found)))
      [(), ()]
     = Inl (FirebaseError ''messaging/registration-token-not-registered'')"
proof -
  have h: "batchClient (batch_handler (Inl (RequestResponseError not_found))) [(), ()]
             = Inl (RequestResponseError not_found)"
    by (simp add: batch_handler_def)
  have e: "createFirebaseError example_imports not_found
             = ''messaging/registration-token-not-registered''"
    by (simp add: example_imports_def not_found_def)
  from sendBatchRequest_encoder_failure [OF h, of example_imports] h e
  show ?thesis by simp
qed

subsection \<open>Errors already in the SDK's format\<close>

text \<open>
  C7. In each of the four operations, an error already in the SDK's format with which
  the client rejects is the error with which the operation rejects: it is not passed
  to the classifier again and not wrapped.
\<close>

theorem normalized_error_unchanged:
  "(httpClient this (httpRequest im host path d) = Inl (FirebaseError n) \<longrightarrow>
      invokeRequestHandler im this host path d = Inl (FirebaseError n)) \<and>
   (httpClient this (httpRequest im host path d) = Inl (FirebaseError n) \<longrightarrow>
      invokeHttpRequestHandlerForSendResponse im this host path d = Inl (FirebaseError n)) \<and>
   (http2Client this (http2Request im host path d s) = Inl (FirebaseError n) \<longrightarrow>
      invokeHttp2RequestHandlerForSendResponse im this host path d s
        = Inl (FirebaseError n)) \<and>
   (batchClient this requests = Inl (FirebaseError n) \<longrightarrow>
      sendBatchRequest im this requests = Inl (FirebaseError n))"
  by (simp add: invokeRequestHandler_unfold invokeHttp_unfold invokeHttp2_unfold
      sendBatchRequest_unfold)

theorem normalized_error_unchanged_witness:
  "httpClient (single_handler (Inl (FirebaseError ''app/network-timeout'')))
     (httpRequest example_imports ''h'' ''/p'' JNull)
     = Inl (FirebaseError ''app/network-timeout'') \<and>
   invokeRequestHandler example_imports
     (single_handler (Inl (FirebaseError ''app/network-timeout''))) ''h'' ''/p'' JNull
     = Inl (FirebaseError ''app/network-timeout'') \<and>
   invokeHttpRequestHandlerForSendResponse example_imports
     (single_handler (Inl (FirebaseError ''app/network-timeout''))) ''h'' ''/p'' JNull
     = Inl (FirebaseError ''app/network-timeout'') \<and>
   http2Client (single_handler (Inl (FirebaseError ''app/network-timeout'')))
     (http2Request example_imports ''h'' ''/p'' JNull ())
     = Inl (FirebaseError ''app/network-timeout'') \<and>
   invokeHttp2RequestHandlerForSendResponse example_imports
     (single_handler (Inl (FirebaseError ''app/network-timeout''))) ''h'' ''/p'' JNull ()
     = Inl (FirebaseError ''app/network-timeout'') \<and>
   batchClient (batch_handler (Inl (FirebaseError ''app/network-timeout''))) [(), ()]
     = Inl (FirebaseError ''app/network-timeout'') \<and>
   sendBatchRequest example_imports
     (batch_handler (Inl (FirebaseError ''app/network-timeout''))) [(), ()]
     = Inl (FirebaseError ''app/network-timeout'')"
proof -
  let ?e = "Inl (FirebaseError ''app/network-timeout'')"
  have h1: "httpClient (single_handler ?e) (httpRequest example_imports ''h'' ''/p'' JNull) = ?e"
    by (simp add: single_handler_def)
  have h2: "http2Client (single_handler ?e) (http2Request example_imports ''h'' ''/p'' JNull ())
              = ?e"
    by (simp add: single_handler_def)
  have h3: "batchClient (batch_handler ?e) [(), ()] = ?e"
    by (simp add: batch_handler_def)
  from normalized_error_unchanged
         [where this = "single_handler ?e" and im = example_imports and host = "''h''"
            and path = "''/p''" and d = JNull and s = "()" and n = "''app/network-timeout''"
            and requests = "[]"]
       normalized_error_unchanged
         [where this = "batch_handler ?e" and im = example_imports and host = "''h''"
            and path = "''/p''" and d = JNull and s = "()" and n = "''app/network-timeout''"
            and requests = "[(), ()]"]
       h1 h2 h3
  show ?thesis by simp
qed

section \<open>Properties of the tenant configuration object\<close>

subsection \<open>Building the server request\<close>

lemma obj_get_set: "obj_get (obj_set kvs k v) k' = (if k' = k then v else obj_get kvs k')"
  by (simp add: obj_get_def obj_set_def update_conv')

lemma and_then_Inr_iff: "(and_then r f = Inr y) = (\<exists>v. r = Inr v \<and> f v = Inr y)"
  by (cases r) (simp_all add: and_then_def)

lemma and_then_Inl_iff: "(and_then r f = Inl e) = (r = Inl e \<or> (\<exists>v. r = Inr v \<and> f v = Inl e))"
  by (cases r) (simp_all add: and_then_def)

lemma let_eq_iff: "(Let a f = y) = (\<exists>x. f x = y \<and> x = a)"
  by simp

lemma step_keep:
  assumes "(if c then and_then b (\<lambda>v. Inr (obj_set r k v)) else Inr r) = Inr r'"
    and "k' \<noteq> k"
  shows "obj_get r' k' = obj_get r k'"
  using assms by (auto simp: and_then_Inr_iff obj_get_set split: if_splits)

lemma build_update_null:
  assumes "obj_get tenantOptions ''testPhoneNumbers'' = JNull"
    and "buildServerRequest ac tenantOptions createRequest = Inr request"
  shows "obj_get request ''testPhoneNumbers'' = JObj []"
  using assms(2) unfolding buildServerRequest_def
  apply (simp only: and_then_Inr_iff let_eq_iff)
  apply (elim exE conjE)
  subgoal premises p for u r0 r1 x1 x2 r2 x3 x4 x5
  proof -
    have 1: "obj_get r2 ''testPhoneNumbers'' = JObj []"
      using p(6) assms(1) by (simp add: obj_get_set)
    have 2: "obj_get x3 ''testPhoneNumbers'' = obj_get r2 ''testPhoneNumbers''"
      using p(7) by (simp add: obj_get_set)
    have 3: "obj_get x4 ''testPhoneNumbers'' = obj_get x3 ''testPhoneNumbers''"
      using p(8) by (rule step_keep) simp
    have 4: "obj_get x5 ''testPhoneNumbers'' = obj_get x4 ''testPhoneNumbers''"
      using p(9) by (rule step_keep) simp
    have 5: "obj_get request ''testPhoneNumbers'' = obj_get x5 ''testPhoneNumbers''"
      using p(10) by (auto simp: obj_get_set)
    show ?thesis using 1 2 3 4 5 by simp
  qed
  done

lemma check_step:
  "((if c then and_then b (\<lambda>_. Inr ()) else Inr ()) = Inr v) = (c \<longrightarrow> (\<exists>w. b = Inr w))"
  by (cases b) (auto simp: and_then_def)

lemma if_Inl_eq_Inr: "((if c then Inl e else X) = Inr u) = (\<not> c \<and> X = Inr u)"
  by simp

lemma case_Inl_eq_Inr:
  "((case x of None \<Rightarrow> X | Some k \<Rightarrow> Inl (f k)) = Inr u) = (x = None \<and> X = Inr u)"
  by (cases x) simp_all

lemma validate_Inr_builders:
  assumes "validate ac request createRequest = Inr u"
  shows "(obj_get request ''emailSignInConfig'' \<noteq> JUndefined \<longrightarrow>
            (\<exists>v. EmailSignInConfig_buildServerRequest ac
                    (obj_get request ''emailSignInConfig'') = Inr v)) \<and>
         (obj_get request ''multiFactorConfig'' \<noteq> JUndefined \<longrightarrow>
            (\<exists>v. MultiFactorAuthConfig_buildServerRequest ac
                    (obj_get request ''multiFactorConfig'') = Inr v)) \<and>
         (obj_get request ''recaptchaConfig'' \<noteq> JUndefined \<longrightarrow>
            (\<exists>v. RecaptchaAuthConfig_buildServerRequest ac
                    (obj_get request ''recaptchaConfig'') = Inr v)) \<and>
         (obj_get request ''passwordPolicyConfig'' \<noteq> JUndefined \<longrightarrow>
            (\<exists>v. PasswordPolicyAuthConfig_buildServerRequest ac
                    (obj_get request ''passwordPolicyConfig'') = Inr v))"
  using assms unfolding validate_def Let_def
  by (simp only: if_Inl_eq_Inr case_Inl_eq_Inr and_then_Inr_iff check_step) blast

lemma step_total:
  "(\<exists>r'. (if c then and_then b (\<lambda>v. Inr (obj_set r k v)) else Inr r) = Inr r')
     = (c \<longrightarrow> (\<exists>v. b = Inr v))"
  by (cases b) (auto simp: and_then_def)

lemma build_total:
  assumes "validate ac tenantOptions createRequest = Inr u"
  shows "\<exists>request. buildServerRequest ac tenantOptions createRequest = Inr request"
proof -
  note b = validate_Inr_builders [OF assms]
  obtain r0 where r0:
    "(if obj_get tenantOptions ''emailSignInConfig'' \<noteq> JUndefined
      then EmailSignInConfig_buildServerRequest ac (obj_get tenantOptions ''emailSignInConfig'')
      else Inr []) = Inr r0"
    using b by (cases "obj_get tenantOptions ''emailSignInConfig'' = JUndefined") auto
  define r1 where "r1 =
    (if obj_get tenantOptions ''displayName'' \<noteq> JUndefined
     then obj_set r0 ''displayName'' (obj_get tenantOptions ''displayName'') else r0)"
  define r2 where "r2 =
    (if obj_get tenantOptions ''anonymousSignInEnabled'' \<noteq> JUndefined
     then obj_set r1 ''enableAnonymousUser'' (obj_get tenantOptions ''anonymousSignInEnabled'')
     else r1)"
  obtain r3 where r3:
    "(if obj_get tenantOptions ''multiFactorConfig'' \<noteq> JUndefined
      then and_then
             (MultiFactorAuthConfig_buildServerRequest ac
                (obj_get tenantOptions ''multiFactorConfig''))
             (\<lambda>v. Inr (obj_set r2 ''mfaConfig'' v))
      else Inr r2) = Inr r3"
    using b step_total by blast
  define r4 where "r4 =
    (if obj_get tenantOptions ''testPhoneNumbers'' \<noteq> JUndefined
     then obj_set r3 ''testPhoneNumbers''
            (if obj_get tenantOptions ''testPhoneNumbers'' = JNull \<or>
                obj_get tenantOptions ''testPhoneNumbers'' = JUndefined
             then JObj [] else obj_get tenantOptions ''testPhoneNumbers'')
     else r3)"
  define r5 where "r5 =
    (if obj_get tenantOptions ''smsRegionConfig'' \<noteq> JUndefined
     then obj_set r4 ''smsRegionConfig'' (obj_get tenantOptions ''smsRegionConfig'')
     else r4)"
  obtain r6 where r6:
    "(if obj_get tenantOptions ''recaptchaConfig'' \<noteq> JUndefined
      then and_then
             (RecaptchaAuthConfig_buildServerRequest ac
                (obj_get tenantOptions ''recaptchaConfig''))
             (\<lambda>v. Inr (obj_set r5 ''recaptchaConfig'' v))
      else Inr r5) = Inr r6"
    using b step_total by blast
  obtain r7 where r7:
    "(if obj_get tenantOptions ''passwordPolicyConfig'' \<noteq> JUndefined
      then and_then
             (PasswordPolicyAuthConfig_buildServerRequest ac
                (obj_get tenantOptions ''passwordPolicyConfig''))
             (\<lambda>v. Inr (obj_set r6 ''passwordPolicyConfig'' v))
      else Inr r6) = Inr r7"
    using b step_total by blast
  show ?thesis
    unfolding buildServerRequest_def
    apply (simp only: and_then_Inr_iff let_eq_iff)
    apply (rule exI conjI assms r0 r1_def r2_def r3 r4_def r5_def r6 r7 refl)+
    done
qed

lemma build_validate_Inl:
  "validate ac tenantOptions createRequest = Inl e \<Longrightarrow>
     buildServerRequest ac tenantOptions createRequest = Inl e"
  by (simp add: buildServerRequest_def and_then_def)

lemma validate_create_null:
  assumes "obj_get request ''testPhoneNumbers'' = JNull"
  shows "\<exists>e. validate ac request True = Inl e \<and>
           (code e = INVALID_ARGUMENT \<or>
            obj_get request ''emailSignInConfig'' \<noteq> JUndefined \<and>
            EmailSignInConfig_buildServerRequest ac (obj_get request ''emailSignInConfig'')
              = Inl e)"
  using assms unfolding validate_def Let_def
  by (cases "EmailSignInConfig_buildServerRequest ac (obj_get request ''emailSignInConfig'')")
     (simp_all add: and_then_def split: option.splits)

text \<open>
  C9. With \<^verbatim>\<open>testPhoneNumbers\<close> set to \<^verbatim>\<open>null\<close>: every server request built for an
  update carries \<^verbatim>\<open>testPhoneNumbers\<close> equal to the empty object, and one is built
  whenever the validation of the update request passes; for a create request the call
  throws, and what it throws has code \<^verbatim>\<open>invalid-argument\<close> unless it is the error that
  \<^verbatim>\<open>EmailSignInConfig.buildServerRequest\<close> raised on the \<^verbatim>\<open>emailSignInConfig\<close> of the
  request, which is validated first; so the code is \<^verbatim>\<open>invalid-argument\<close> whenever that
  builder raises no other code.
\<close>

theorem buildServerRequest_null_testPhoneNumbers:
  assumes "obj_get tenantOptions ''testPhoneNumbers'' = JNull"
  shows "(\<forall>request. buildServerRequest ac tenantOptions False = Inr request \<longrightarrow>
            obj_get request ''testPhoneNumbers'' = JObj []) \<and>
         (validate ac tenantOptions False = Inr () \<longrightarrow>
            (\<exists>request. buildServerRequest ac tenantOptions False = Inr request \<and>
               obj_get request ''testPhoneNumbers'' = JObj [])) \<and>
         (\<exists>e. buildServerRequest ac tenantOptions True = Inl e \<and>
            (code e = INVALID_ARGUMENT \<or>
             obj_get tenantOptions ''emailSignInConfig'' \<noteq> JUndefined \<and>
             EmailSignInConfig_buildServerRequest ac
               (obj_get tenantOptions ''emailSignInConfig'') = Inl e)) \<and>
         ((\<forall>v e. EmailSignInConfig_buildServerRequest ac v = Inl e
              \<longrightarrow> code e = INVALID_ARGUMENT) \<longrightarrow>
            (\<exists>e. buildServerRequest ac tenantOptions True = Inl e \<and>
               code e = INVALID_ARGUMENT))"
proof -
  have third: "\<exists>e. buildServerRequest ac tenantOptions True = Inl e \<and>
      (code e = INVALID_ARGUMENT \<or>
       obj_get tenantOptions ''emailSignInConfig'' \<noteq> JUndefined \<and>
       EmailSignInConfig_buildServerRequest ac
         (obj_get tenantOptions ''emailSignInConfig'') = Inl e)"
  proof -
    from validate_create_null [OF assms, of ac]
    obtain e where e: "validate ac tenantOptions True = Inl e"
      "code e = INVALID_ARGUMENT \<or>
       obj_get tenantOptions ''emailSignInConfig'' \<noteq> JUndefined \<and>
       EmailSignInConfig_buildServerRequest ac (obj_get tenantOptions ''emailSignInConfig'')
         = Inl e"
      by blast
    from e(1) have "buildServerRequest ac tenantOptions True = Inl e"
      by (rule build_validate_Inl)
    with e(2) show ?thesis by blast
  qed
  show ?thesis
  proof (intro conjI allI impI)
    fix request
    assume "buildServerRequest ac tenantOptions False = Inr request"
    with assms show "obj_get request ''testPhoneNumbers'' = JObj []"
      by (rule build_update_null)
  next
    assume "validate ac tenantOptions False = Inr ()"
    then obtain request where r: "buildServerRequest ac tenantOptions False = Inr request"
      using build_total by blast
    with assms have "obj_get request ''testPhoneNumbers'' = JObj []"
      by (rule build_update_null)
    with r show "\<exists>request. buildServerRequest ac tenantOptions False = Inr request \<and>
        obj_get request ''testPhoneNumbers'' = JObj []"
      by blast
  next
    show "\<exists>e. buildServerRequest ac tenantOptions True = Inl e \<and>
        (code e = INVALID_ARGUMENT \<or>
         obj_get tenantOptions ''emailSignInConfig'' \<noteq> JUndefined \<and>
         EmailSignInConfig_buildServerRequest ac
           (obj_get tenantOptions ''emailSignInConfig'') = Inl e)"
      by (rule third)
  next
    assume "\<forall>v e. EmailSignInConfig_buildServerRequest ac v = Inl e
        \<longrightarrow> code e = INVALID_ARGUMENT"
    with third show "\<exists>e. buildServerRequest ac tenantOptions True = Inl e \<and>
        code e = INVALID_ARGUMENT"
      by blast
  qed
qed

lemma in_validKeys_simps:
  "in_validKeys ''displayName''" "in_validKeys ''testPhoneNumbers''"
  by (simp_all add: in_validKeys_def validKeys_def)

lemma validate_null_phone_update:
  "validate example_auth_config null_phone_options False = Inr ()"
  by (simp add: validate_def null_phone_options_def example_auth_config_def obj_get_def
      and_then_def in_validKeys_simps)

lemma null_phone_options_get:
  "obj_get null_phone_options ''displayName'' = JStr ''tenant-1''"
  "obj_get null_phone_options ''testPhoneNumbers'' = JNull"
  "obj_get null_phone_options ''emailSignInConfig'' = JUndefined"
  "obj_get null_phone_options ''anonymousSignInEnabled'' = JUndefined"
  "obj_get null_phone_options ''multiFactorConfig'' = JUndefined"
  "obj_get null_phone_options ''smsRegionConfig'' = JUndefined"
  "obj_get null_phone_options ''recaptchaConfig'' = JUndefined"
  "obj_get null_phone_options ''passwordPolicyConfig'' = JUndefined"
  "obj_get null_phone_options ''emailPrivacyConfig'' = JUndefined"
  by (simp_all add: null_phone_options_def obj_get_def)

lemma build_null_phone_update:
  "buildServerRequest example_auth_config null_phone_options False
     = Inr [(''displayName'', JStr ''tenant-1''), (''testPhoneNumbers'', JObj [])]"
  by (simp add: buildServerRequest_def validate_null_phone_update and_then_def
      null_phone_options_get obj_set_def)

lemma build_null_phone_create:
  \<open>buildServerRequest example_auth_config null_phone_options True
     = Inl (FirebaseAuthError INVALID_ARGUMENT
              ''"CreateTenantRequest.testPhoneNumbers" must be a non-null object.'')\<close>
  by (simp add: buildServerRequest_def validate_def null_phone_options_def
      example_auth_config_def obj_get_def and_then_def in_validKeys_simps)

theorem buildServerRequest_null_testPhoneNumbers_witness:
  \<open>obj_get null_phone_options ''testPhoneNumbers'' = JNull \<and>
   validate example_auth_config null_phone_options False = Inr () \<and>
   buildServerRequest example_auth_config null_phone_options False
     = Inr [(''displayName'', JStr ''tenant-1''), (''testPhoneNumbers'', JObj [])] \<and>
   obj_get [(''displayName'', JStr ''tenant-1''), (''testPhoneNumbers'', JObj [])]
     ''testPhoneNumbers'' = JObj [] \<and>
   buildServerRequest example_auth_config null_phone_options True
     = Inl (FirebaseAuthError INVALID_ARGUMENT
              ''"CreateTenantRequest.testPhoneNumbers" must be a non-null object.'') \<and>
   (\<exists>e. buildServerRequest example_auth_config null_phone_options True = Inl e \<and>
      code e = INVALID_ARGUMENT)\<close>
proof -
  have h: "obj_get null_phone_options ''testPhoneNumbers'' = JNull"
    by (simp add: null_phone_options_def obj_get_def)
  have b: "\<forall>v e. EmailSignInConfig_buildServerRequest example_auth_config v = Inl e
             \<longrightarrow> code e = INVALID_ARGUMENT"
    by (auto simp: example_auth_config_def split: jsval.splits)
  note t = buildServerRequest_null_testPhoneNumbers [OF h, of example_auth_config]
  from t have "obj_get [(''displayName'', JStr ''tenant-1''), (''testPhoneNumbers'', JObj [])]
          ''testPhoneNumbers'' = JObj []"
    using build_null_phone_update by blast
  moreover from t b
  have "\<exists>e. buildServerRequest example_auth_config null_phone_options True = Inl e \<and>
          code e = INVALID_ARGUMENT"
    by blast
  ultimately show ?thesis
    using h validate_null_phone_update build_null_phone_update build_null_phone_create
    by simp
qed

subsection \<open>The tenant identifier\<close>

lemma match_tenants_None:
  "match_tenants s = None \<Longrightarrow> s = pre @ ''/tenants/'' @ t \<Longrightarrow> lt_free t \<Longrightarrow> False"
proof (induction s arbitrary: pre)
  case Nil
  then show ?case by simp
next
  case (Cons c cs)
  show ?case
  proof (cases pre)
    case Nil
    with Cons.prems(2) have "c # cs = ''/tenants/'' @ t" by simp
    then have "take 9 (c # cs) = ''/tenants/''" "drop 9 (c # cs) = t" by simp_all
    with Cons.prems(1,3) show False by (simp add: lt_free_def)
  next
    case (Cons p ps)
    with Cons.prems(2) have cs: "cs = ps @ ''/tenants/'' @ t" by simp
    from Cons.prems(1) have "match_tenants cs = None" by (simp split: if_splits)
    from Cons.IH [OF this cs Cons.prems(3)] show False .
  qed
qed

lemma match_tenants_Some:
  "match_tenants s = Some m \<Longrightarrow>
     \<exists>pre t. s = pre @ ''/tenants/'' @ t \<and> lt_free t \<and> m = [''/tenants/'' @ t, t] \<and>
       (\<forall>pre' t'. s = pre' @ ''/tenants/'' @ t' \<and> lt_free t' \<longrightarrow> length pre \<le> length pre')"
proof (induction s)
  case Nil
  then show ?case by simp
next
  case (Cons c cs)
  show ?case
  proof (cases "take 9 (c # cs) = ''/tenants/'' \<and> \<not> list_ex isLineTerminator (drop 9 (c # cs))")
    case True
    then have s: "c # cs = ''/tenants/'' @ drop 9 (c # cs)"
      by (metis append_take_drop_id)
    from True Cons.prems have m: "m = [c # cs, drop 9 (c # cs)]" by (auto split: if_splits)
    have "c # cs = [] @ ''/tenants/'' @ drop 9 (c # cs) \<and> lt_free (drop 9 (c # cs)) \<and>
          m = [''/tenants/'' @ drop 9 (c # cs), drop 9 (c # cs)] \<and>
          (\<forall>pre' t'. c # cs = pre' @ ''/tenants/'' @ t' \<and> lt_free t'
             \<longrightarrow> length ([]::string) \<le> length pre')"
      using s m True by (simp add: lt_free_def)
    then show ?thesis by blast
  next
    case False
    with Cons.prems have "match_tenants cs = Some m" by (auto split: if_splits)
    from Cons.IH [OF this] obtain pre t where
      p: "cs = pre @ ''/tenants/'' @ t" "lt_free t" "m = [''/tenants/'' @ t, t]"
        "\<forall>pre' t'. cs = pre' @ ''/tenants/'' @ t' \<and> lt_free t' \<longrightarrow> length pre \<le> length pre'"
      by blast
    have min: "length (c # pre) \<le> length pre'"
      if a: "c # cs = pre' @ ''/tenants/'' @ t'" "lt_free t'" for pre' t'
    proof (cases pre')
      case Nil
      with a(1) have "c # cs = ''/tenants/'' @ t'" by simp
      then have "take 9 (c # cs) = ''/tenants/''" "drop 9 (c # cs) = t'" by simp_all
      with a(2) False show ?thesis by (simp add: lt_free_def)
    next
      case (Cons q qs)
      with a(1) have "cs = qs @ ''/tenants/'' @ t'" by simp
      with p(4) a(2) have "length pre \<le> length qs" by blast
      with Cons show ?thesis by simp
    qed
    have "c # cs = (c # pre) @ ''/tenants/'' @ t" using p(1) by simp
    with p(2,3) min show ?thesis by blast
  qed
qed

lemma getTenantId_None_iff:
  "(getTenantIdFromResourceName n = None)
     = (\<not> (\<exists>pre t. n = pre @ ''/tenants/'' @ t \<and> lt_free t))"
proof (cases "match_tenants n")
  case None
  then show ?thesis
    using match_tenants_None [OF None] by (auto simp: getTenantIdFromResourceName_def)
next
  case (Some m)
  from match_tenants_Some [OF Some] show ?thesis
    by (auto simp: getTenantIdFromResourceName_def Some)
qed

lemma getTenantId_Some_iff:
  "(getTenantIdFromResourceName n = Some t)
     = (\<exists>pre. n = pre @ ''/tenants/'' @ t \<and> lt_free t \<and>
          (\<forall>pre' t'. n = pre' @ ''/tenants/'' @ t' \<and> lt_free t'
             \<longrightarrow> length pre \<le> length pre'))"
proof
  assume a: "getTenantIdFromResourceName n = Some t"
  then obtain m where m: "match_tenants n = Some m"
    by (auto simp: getTenantIdFromResourceName_def split: option.splits)
  from match_tenants_Some [OF m] obtain pre t0 where
    p: "n = pre @ ''/tenants/'' @ t0" "lt_free t0" "m = [''/tenants/'' @ t0, t0]"
      "\<forall>pre' t'. n = pre' @ ''/tenants/'' @ t' \<and> lt_free t' \<longrightarrow> length pre \<le> length pre'"
    by blast
  from a m p(3) have "t = t0" by (simp add: getTenantIdFromResourceName_def)
  with p show "\<exists>pre. n = pre @ ''/tenants/'' @ t \<and> lt_free t \<and>
      (\<forall>pre' t'. n = pre' @ ''/tenants/'' @ t' \<and> lt_free t' \<longrightarrow> length pre \<le> length pre')"
    by blast
next
  assume "\<exists>pre. n = pre @ ''/tenants/'' @ t \<and> lt_free t \<and>
      (\<forall>pre' t'. n = pre' @ ''/tenants/'' @ t' \<and> lt_free t' \<longrightarrow> length pre \<le> length pre')"
  then obtain pre where
    q: "n = pre @ ''/tenants/'' @ t" "lt_free t"
      "\<forall>pre' t'. n = pre' @ ''/tenants/'' @ t' \<and> lt_free t' \<longrightarrow> length pre \<le> length pre'"
    by blast
  obtain m where m: "match_tenants n = Some m"
    using match_tenants_None [OF _ q(1) q(2)] by (cases "match_tenants n") auto
  from match_tenants_Some [OF m] obtain pre0 t0 where
    p: "n = pre0 @ ''/tenants/'' @ t0" "lt_free t0" "m = [''/tenants/'' @ t0, t0]"
      "\<forall>pre' t'. n = pre' @ ''/tenants/'' @ t' \<and> lt_free t' \<longrightarrow> length pre0 \<le> length pre'"
    by blast
  from p(4) q(1,2) have "length pre0 \<le> length pre" by blast
  moreover from q(3) p(1,2) have "length pre \<le> length pre0" by blast
  ultimately have "length pre0 = length pre" by simp
  with p(1) q(1) have "t0 = t" by simp
  with m p(3) show "getTenantIdFromResourceName n = Some t"
    by (simp add: getTenantIdFromResourceName_def)
qed

lemma constructor_invalid:
  "getTenantIdFromResourceName (name response) = None \<or>
   getTenantIdFromResourceName (name response) = Some [] \<Longrightarrow>
     Tenant_constructor ac response = Inl invalid_tenant_response"
  by (auto simp: Tenant_constructor_def)

lemma constructor_Inr:
  "Tenant_constructor ac response = Inr T \<Longrightarrow>
     getTenantIdFromResourceName (name response) = Some (tenantId T) \<and> tenantId T \<noteq> []"
  unfolding Tenant_constructor_def
  by (cases "getTenantIdFromResourceName (name response)")
     (auto simp: and_then_Inr_iff split: if_splits)

lemma constructor_Inl:
  assumes "getTenantIdFromResourceName (name response) = Some t" and "t \<noteq> []"
    and "Tenant_constructor ac response = Inl e"
  shows "EmailSignInConfig_new ac (JObj [(''allowPasswordSignup'', JBool False)]) = Inl e \<or>
         MultiFactorAuthConfig_new ac (obj_get (props response) ''mfaConfig'') = Inl e \<or>
         RecaptchaAuthConfig_new ac (obj_get (props response) ''recaptchaConfig'') = Inl e \<or>
         PasswordPolicyAuthConfig_new ac (obj_get (props response) ''passwordPolicyConfig'')
           = Inl e"
  using assms unfolding Tenant_constructor_def
  by (auto simp: and_then_Inl_iff split: if_splits sum.splits)

text \<open>
  C10, as amended. \<^verbatim>\<open>getTenantIdFromResourceName\<close> returns what follows the first
  occurrence of \<^verbatim>\<open>/tenants/\<close> that no line terminator follows, and \<^verbatim>\<open>null\<close> when the
  name has no such occurrence. The constructor throws its internal error when the
  extraction gives \<^verbatim>\<open>null\<close> or the empty string; when it returns, \<^verbatim>\<open>tenantId\<close> is the
  extracted, non-empty value; and any other error it throws is the one thrown by the
  constructor of a nested configuration.
\<close>

theorem getTenantIdFromResourceName_first:
  "((getTenantIdFromResourceName n = None)
      = (\<not> (\<exists>pre t. n = pre @ ''/tenants/'' @ t \<and> lt_free t))) \<and>
   ((getTenantIdFromResourceName n = Some t)
      = (\<exists>pre. n = pre @ ''/tenants/'' @ t \<and> lt_free t \<and>
           (\<forall>pre' t'. n = pre' @ ''/tenants/'' @ t' \<and> lt_free t'
              \<longrightarrow> length pre \<le> length pre'))) \<and>
   (getTenantIdFromResourceName (name response) = None \<or>
    getTenantIdFromResourceName (name response) = Some [] \<longrightarrow>
      Tenant_constructor ac response = Inl invalid_tenant_response) \<and>
   (Tenant_constructor ac response = Inr T \<longrightarrow>
      getTenantIdFromResourceName (name response) = Some (tenantId T) \<and> tenantId T \<noteq> []) \<and>
   (getTenantIdFromResourceName (name response) = Some t \<and> t \<noteq> [] \<and>
    Tenant_constructor ac response = Inl e \<longrightarrow>
      EmailSignInConfig_new ac (JObj [(''allowPasswordSignup'', JBool False)]) = Inl e \<or>
      MultiFactorAuthConfig_new ac (obj_get (props response) ''mfaConfig'') = Inl e \<or>
      RecaptchaAuthConfig_new ac (obj_get (props response) ''recaptchaConfig'') = Inl e \<or>
      PasswordPolicyAuthConfig_new ac (obj_get (props response) ''passwordPolicyConfig'')
        = Inl e)"
  using getTenantId_None_iff [of n] getTenantId_Some_iff [of n t]
    constructor_invalid [of response ac] constructor_Inr [of ac response T]
    constructor_Inl [of response t ac e]
  by (intro conjI impI) blast+

lemma getTenantId_examples:
  "getTenantIdFromResourceName ''projects/project1/tenants/tenant1'' = Some ''tenant1''"
  "getTenantIdFromResourceName ''projects/project1'' = None"
  by (simp_all add: getTenantIdFromResourceName_def isLineTerminator_def)

theorem getTenantIdFromResourceName_first_witness:
  "getTenantIdFromResourceName ''projects/project1/tenants/tenant1'' = Some ''tenant1'' \<and>
   ''projects/project1/tenants/tenant1'' = ''projects/project1'' @ ''/tenants/'' @ ''tenant1'' \<and>
   lt_free ''tenant1'' \<and>
   getTenantIdFromResourceName ''projects/project1'' = None \<and>
   Tenant_constructor example_auth_config \<lparr>name = ''projects/project1'', props = []\<rparr>
     = Inl invalid_tenant_response \<and>
   (\<exists>T. Tenant_constructor example_auth_config
           \<lparr>name = ''projects/project1/tenants/tenant1'', props = []\<rparr> = Inr T \<and>
        tenantId T = ''tenant1'')"
proof -
  let ?r0 = "\<lparr>name = ''projects/project1'', props = []\<rparr>"
  let ?r1 = "\<lparr>name = ''projects/project1/tenants/tenant1'', props = []\<rparr>"
  note ex = getTenantId_examples
  have a: "Tenant_constructor example_auth_config ?r0 = Inl invalid_tenant_response"
    using getTenantIdFromResourceName_first
            [where response = ?r0 and ac = example_auth_config] ex(2)
    by simp
  obtain T where T: "Tenant_constructor example_auth_config ?r1 = Inr T"
    by (simp add: Tenant_constructor_def ex(1) example_auth_config_def and_then_def
        response_object_def obj_get_def)
  from getTenantIdFromResourceName_first
         [where response = ?r1 and ac = example_auth_config and T = T] T ex(1)
  have "tenantId T = ''tenant1''" by simp
  with T a ex show ?thesis
    by (simp add: lt_free_def isLineTerminator_def)
qed

text \<open>
  C10 as stated fails: where \<^verbatim>\<open>/tenants/\<close> occurs twice the result is what follows the
  first occurrence, not the last; and a name in which a line terminator follows the
  pattern gives \<^verbatim>\<open>null\<close> although the pattern is present.
\<close>

theorem getTenantIdFromResourceName_not_last:
  "getTenantIdFromResourceName ''projects/p/tenants/a/tenants/b'' = Some ''a/tenants/b'' \<and>
   ''projects/p/tenants/a/tenants/b'' = ''projects/p/tenants/a'' @ ''/tenants/'' @ ''b'' \<and>
   getTenantIdFromResourceName (''projects/p/tenants/a'' @ [CHR 0x0A]) = None"
  by (simp add: getTenantIdFromResourceName_def isLineTerminator_def)

end
